theory Spec2Isabelle
  imports Complex_Main
begin

section \<open>The generation store (stores/imageGeneration.ts)\<close>

text \<open>
  The store module keeps one \<open>GenerationState\<close> object in a Svelte \<open>writable\<close>.
  Every action of \<open>generationActions\<close> is a call \<open>generationStore.update(f)\<close> with an
  arrow function \<open>f\<close> that builds the next state from the current one; the functions
  below are those arrow functions, named after their actions.  Step counts, pixel
  sizes and times are JavaScript numbers holding integers and are modelled as \<open>int\<close>;
  the guidance scale (7.5 by default) is a \<open>rat\<close>.
\<close>

record GenerationParams =
  prompt :: string
  img_width :: int
  img_height :: int
  num_imgs :: int
  num_inference_steps :: int
  guidance_scale :: rat

text \<open>
  The interface \<open>GenerationProgress\<close> declares three fields; the object literal of the
  initial store also carries \<open>is_complete\<close> and \<open>is_cancelled\<close>, which the literals of
  \<open>startGeneration\<close> and \<open>reset\<close> leave out (\<open>None\<close> is JavaScript's \<open>undefined\<close>).
\<close>

record GenerationProgress =
  current_step :: int
  total_steps :: int
  status :: string
  is_complete :: "bool option"
  is_cancelled :: "bool option"

record GenerationResult =
  generated_img_path :: string
  aux_output_image_path :: "string option"

record GenerationState =
  params :: GenerationParams
  isGenerating :: bool
  progress :: GenerationProgress
  currentResult :: "GenerationResult option"
  error :: "string option"
  history :: "GenerationResult list"

record AppSettings =
  default_width :: int
  default_height :: int
  default_inference_steps :: int
  default_guidance_scale :: rat
  output_directory :: string
  model_path :: string

text \<open>\<open>Partial<GenerationParams>\<close>: every key may be absent.\<close>

record PartialParams =
  new_prompt :: "string option"
  new_img_width :: "int option"
  new_img_height :: "int option"
  new_num_imgs :: "int option"
  new_num_inference_steps :: "int option"
  new_guidance_scale :: "rat option"

datatype dimension = Width | Height

definition defaultParams :: GenerationParams where
  "defaultParams =
     \<lparr>prompt = '''', img_width = 512, img_height = 512, num_imgs = 1,
      num_inference_steps = 20, guidance_scale = 15 / 2\<rparr>"

definition initialState :: GenerationState where
  "initialState =
     \<lparr>params = defaultParams,
      isGenerating = False,
      progress = \<lparr>current_step = 0, total_steps = 20, status = ''Ready'',
                  is_complete = Some False, is_cancelled = Some False\<rparr>,
      currentResult = None,
      error = None,
      history = []\<rparr>"

definition spread :: "'a \<Rightarrow> 'a option \<Rightarrow> 'a" where
  "spread old new = (case new of None \<Rightarrow> old | Some v \<Rightarrow> v)"

definition updateParams :: "PartialParams \<Rightarrow> GenerationState \<Rightarrow> GenerationState" where
  "updateParams newParams store =
     store\<lparr>params :=
       \<lparr>prompt = spread (prompt (params store)) (new_prompt newParams),
        img_width = spread (img_width (params store)) (new_img_width newParams),
        img_height = spread (img_height (params store)) (new_img_height newParams),
        num_imgs = spread (num_imgs (params store)) (new_num_imgs newParams),
        num_inference_steps =
          spread (num_inference_steps (params store)) (new_num_inference_steps newParams),
        guidance_scale =
          spread (guidance_scale (params store)) (new_guidance_scale newParams)\<rparr>\<rparr>"

definition updateDimension :: "dimension \<Rightarrow> int \<Rightarrow> GenerationState \<Rightarrow> GenerationState" where
  "updateDimension d v store =
     (case d of
        Width \<Rightarrow> store\<lparr>params := (params store)\<lparr>img_width := v\<rparr>\<rparr>
      | Height \<Rightarrow> store\<lparr>params := (params store)\<lparr>img_height := v\<rparr>\<rparr>)"

definition startGeneration :: "GenerationState \<Rightarrow> GenerationState" where
  "startGeneration store =
     store\<lparr>isGenerating := True,
           error := None,
           progress := \<lparr>current_step = 0,
                        total_steps = num_inference_steps (params store),
                        status = ''Initializing...'',
                        is_complete = None, is_cancelled = None\<rparr>\<rparr>"

definition updateProgress :: "GenerationProgress \<Rightarrow> GenerationState \<Rightarrow> GenerationState" where
  "updateProgress p store = store\<lparr>progress := p\<rparr>"

definition setResult :: "GenerationResult \<Rightarrow> GenerationState \<Rightarrow> GenerationState" where
  "setResult result store =
     store\<lparr>isGenerating := False,
           currentResult := Some result,
           history := take 50 (result # history store)\<rparr>"

definition setError :: "string \<Rightarrow> GenerationState \<Rightarrow> GenerationState" where
  "setError e store = store\<lparr>isGenerating := False, error := Some e\<rparr>"

definition reset :: "GenerationState \<Rightarrow> GenerationState" where
  "reset store =
     store\<lparr>params := defaultParams,
           isGenerating := False,
           error := None,
           progress := \<lparr>current_step = 0, total_steps = 20, status = ''Ready'',
                        is_complete = None, is_cancelled = None\<rparr>\<rparr>"

text \<open>
  \<open>settingsActions.loadSettings\<close>, as far as it touches the generation store: the
  settings come from the backend command \<open>get_settings\<close>; when the call is rejected
  the error is logged and the generation store is left alone.
\<close>

definition loadSettings :: "string + AppSettings \<Rightarrow> GenerationState \<Rightarrow> GenerationState" where
  "loadSettings response store =
     (case response of
        Inl err \<Rightarrow> store
      | Inr settings \<Rightarrow>
          store\<lparr>params := (params store)
            \<lparr>img_width := default_width settings,
             img_height := default_height settings,
             num_inference_steps := default_inference_steps settings,
             guidance_scale := default_guidance_scale settings\<rparr>\<rparr>)"

section \<open>The Svelte store and the browser around the components\<close>

text \<open>
  \<open>generationStore\<close> is a Svelte \<open>writable\<close>.  Its \<open>update(f)\<close> replaces the value by
  \<open>f(value)\<close> and calls every subscriber whenever the new value is an object, without
  comparing its contents; each arrow function above returns a fresh object literal.
  \<open>notified\<close> is the sequence of values handed to the subscribers, oldest first.
\<close>

record 'a writable =
  current :: 'a
  notified :: "'a list"

definition store_update :: "('a \<Rightarrow> 'a) \<Rightarrow> 'a writable \<Rightarrow> 'a writable" where
  "store_update f w = \<lparr>current = f (current w), notified = notified w @ [f (current w)]\<rparr>"

text \<open>
  An \<open>await invoke(...)\<close> either yields the value the backend command resolved with
  (\<open>Inr\<close>) or throws the value it rejected with (\<open>Inl\<close>).  A function body ends by
  returning or by letting an exception escape; both keep the state reached so far.
\<close>

datatype 'a outcome = Returned 'a | Threw string 'a

fun state_of :: "'a outcome \<Rightarrow> 'a" where
  "state_of (Returned w) = w"
| "state_of (Threw e w) = w"

fun escaped :: "'a outcome \<Rightarrow> bool" where
  "escaped (Returned w) = False"
| "escaped (Threw e w) = True"

text \<open>
  An \<open>await\<close> on a call that never settles suspends the function for good, in the
  state it has reached.
\<close>

datatype 'a async = Finished "'a outcome" | Suspended 'a

fun async_state :: "'a async \<Rightarrow> 'a" where
  "async_state (Finished out) = state_of out"
| "async_state (Suspended w) = w"

text \<open>
  The local variables of \<open>ProgressTracker.svelte\<close>.  \<open>tracker_isGenerating\<close> and
  \<open>tracker_progress\<close> are the component's \<open>isGenerating\<close> and \<open>progress\<close>, which the
  reactive statement \<open>$: ({ isGenerating, progress } = $generationStore)\<close> copies from
  the store when Svelte flushes a change, after the code that changed the store has
  run to its end.
\<close>

record Tracker =
  tracker_isGenerating :: bool
  tracker_progress :: GenerationProgress
  progressInterval :: "nat option"
  startTime :: "int option"
  estimatedTimeRemaining :: string

text \<open>
  What the components share: the store, the timers registered with
  \<open>window.setInterval\<close> (handle and delay in milliseconds; handles are positive and
  handed out in increasing order), and the lines written by \<open>console.error\<close>.
\<close>

record World =
  generationStore :: "GenerationState writable"
  tracker :: Tracker
  intervals :: "(nat \<times> nat) list"
  next_handle :: nat
  console :: "string list"

definition dispatch :: "(GenerationState \<Rightarrow> GenerationState) \<Rightarrow> World \<Rightarrow> World" where
  "dispatch f w = w\<lparr>generationStore := store_update f (generationStore w)\<rparr>"

definition setInterval :: "nat \<Rightarrow> World \<Rightarrow> nat \<times> World" where
  "setInterval delay w =
     (next_handle w,
      w\<lparr>intervals := (next_handle w, delay) # intervals w,
        next_handle := Suc (next_handle w)\<rparr>)"

definition clearInterval :: "nat \<Rightarrow> World \<Rightarrow> World" where
  "clearInterval h w = w\<lparr>intervals := filter (\<lambda>(h', d). h' \<noteq> h) (intervals w)\<rparr>"

definition console_error :: "string \<Rightarrow> World \<Rightarrow> World" where
  "console_error line w = w\<lparr>console := console w @ [line]\<rparr>"

definition initialTracker :: Tracker where
  "initialTracker =
     \<lparr>tracker_isGenerating = False,
      tracker_progress = progress initialState,
      progressInterval = None,
      startTime = None,
      estimatedTimeRemaining = ''''\<rparr>"

definition initialWorld :: World where
  "initialWorld =
     \<lparr>generationStore = \<lparr>current = initialState, notified = []\<rparr>,
      tracker = initialTracker,
      intervals = [],
      next_handle = 1,
      console = []\<rparr>"

section \<open>Printing numbers\<close>

text \<open>A template literal prints an integer-valued number in decimal.\<close>

function show_nat :: "nat \<Rightarrow> string" where
  "show_nat n =
     (if n < 10 then [''0123456789'' ! n]
      else show_nat (n div 10) @ [''0123456789'' ! (n mod 10)])"
  by pat_completeness auto
termination
  by (relation "measure id") auto

declare show_nat.simps [simp del]

definition show_int :: "int \<Rightarrow> string" where
  "show_int i = (if i < 0 then ''-'' @ show_nat (nat (- i)) else show_nat (nat i))"

section \<open>JavaScript numbers\<close>

text \<open>
  A JavaScript number is an IEEE 754 double, and \<open>/\<close> and \<open>*\<close> give the double nearest
  to the exact quotient or product, ties going to the even mantissa.  \<open>binary64 q\<close> is
  that double for a rational \<open>q\<close>: a mantissa of 53 bits and a power of two.  The bounds
  of the exponent are left out; the times in milliseconds and the step counts of a
  session stay far from them, and as integers below \<open>2^53\<close> they are doubles themselves.
\<close>

function bit_length :: "int \<Rightarrow> int" where
  "bit_length n = (if n \<le> 0 then 0 else 1 + bit_length (n div 2))"
  by pat_completeness auto
termination
  by (relation "measure nat") auto

declare bit_length.simps [simp del]

definition pow2 :: "int \<Rightarrow> rat" where
  "pow2 e = (if 0 \<le> e then 2 ^ nat e else 1 / 2 ^ nat (- e))"

definition round_half_even :: "rat \<Rightarrow> int" where
  "round_half_even q =
     (let f = \<lfloor>q\<rfloor>; d = q - of_int f
      in if d < 1 / 2 then f
         else if 1 / 2 < d then f + 1
         else if even f then f else f + 1)"

definition binary64 :: "rat \<Rightarrow> rat" where
  "binary64 q =
     (if q = 0 then 0
      else
        (let (a, b) = quotient_of \<bar>q\<bar>;
             e1 = bit_length a - bit_length b - 53;
             e = (if 2 ^ 53 \<le> \<bar>q\<bar> / pow2 e1 then e1 + 1 else e1)
         in sgn q * of_int (round_half_even (\<bar>q\<bar> / pow2 e)) * pow2 e))"

definition js_div :: "rat \<Rightarrow> rat \<Rightarrow> rat" where
  "js_div x y = binary64 (x / y)"

definition js_mul :: "rat \<Rightarrow> rat \<Rightarrow> rat" where
  "js_mul x y = binary64 (x * y)"

section \<open>ProgressTracker.svelte\<close>

text \<open>
  \<open>formatTime(milliseconds)\<close>.  \<open>Math.ceil\<close> of a double is exact, and so are
  \<open>Math.floor(seconds / 60)\<close> and \<open>seconds % 60\<close> on the integer \<open>seconds\<close>.
\<close>

definition formatTime :: "rat \<Rightarrow> string" where
  "formatTime milliseconds =
     (let seconds = \<lceil>js_div milliseconds 1000\<rceil> in
      if seconds < 60 then show_int seconds @ ''s''
      else if seconds < 3600 then
        (let minutes = seconds div 60; remainingSeconds = seconds mod 60
         in show_int minutes @ ''m '' @ show_int remainingSeconds @ ''s'')
      else
        (let hours = seconds div 3600; minutes = (seconds mod 3600) div 60
         in show_int hours @ ''h '' @ show_int minutes @ ''m''))"

text \<open>JavaScript truthiness of a \<open>number | null\<close>: \<open>null\<close> and \<open>0\<close> are falsy.\<close>

definition truthy :: "'a::zero option \<Rightarrow> bool" where
  "truthy x = (case x of None \<Rightarrow> False | Some v \<Rightarrow> v \<noteq> 0)"

text \<open>
  \<open>updateTimeEstimate()\<close> reads the component's \<open>progress\<close> and \<open>startTime\<close>;
  \<open>now\<close> is the value of \<open>Date.now()\<close>.
\<close>

definition updateTimeEstimate :: "int \<Rightarrow> Tracker \<Rightarrow> Tracker" where
  "updateTimeEstimate now tr =
     (if \<not> truthy (startTime tr) \<or> current_step (tracker_progress tr) = 0
      then tr\<lparr>estimatedTimeRemaining := ''''\<rparr>
      else
        (let elapsed = now - the (startTime tr);
             stepsCompleted = current_step (tracker_progress tr);
             stepsRemaining =
               total_steps (tracker_progress tr) - current_step (tracker_progress tr)
         in if stepsCompleted > 0 then
              (let timePerStep = js_div (rat_of_int elapsed) (rat_of_int stepsCompleted);
                   estimatedRemaining = js_mul timePerStep (rat_of_int stepsRemaining)
               in tr\<lparr>estimatedTimeRemaining := formatTime estimatedRemaining\<rparr>)
            else tr))"

text \<open>
  The callback given to \<open>setInterval\<close>: the body of its \<open>try\<close>, then the \<open>catch\<close>
  around it.  \<open>response\<close> is the outcome of \<open>invoke('get_generation_progress')\<close>.
\<close>

definition pollTry :: "string + GenerationProgress \<Rightarrow> int \<Rightarrow> World \<Rightarrow> World outcome" where
  "pollTry response now w =
     (case response of
        Inl err \<Rightarrow> Threw err w
      | Inr progressData \<Rightarrow>
          (let w1 = dispatch (updateProgress progressData) w
           in Returned (w1\<lparr>tracker := updateTimeEstimate now (tracker w1)\<rparr>)))"

definition pollTick :: "string + GenerationProgress \<Rightarrow> int \<Rightarrow> World \<Rightarrow> World outcome" where
  "pollTick response now w =
     (case pollTry response now w of
        Returned w' \<Rightarrow> Returned w'
      | Threw err w' \<Rightarrow> Returned (console_error (''Failed to get progress: '' @ err) w'))"

definition pollIntervalMs :: nat where
  "pollIntervalMs = 500"

definition startProgressPolling :: "int \<Rightarrow> World \<Rightarrow> World" where
  "startProgressPolling now w =
     (let w1 = w\<lparr>tracker := (tracker w)\<lparr>startTime := Some now\<rparr>\<rparr>;
          (h, w2) = setInterval pollIntervalMs w1
      in w2\<lparr>tracker := (tracker w2)\<lparr>progressInterval := Some h\<rparr>\<rparr>)"

definition stopProgressPolling :: "World \<Rightarrow> World" where
  "stopProgressPolling w =
     (let w1 = (if truthy (progressInterval (tracker w))
                then (clearInterval (the (progressInterval (tracker w))) w)
                       \<lparr>tracker := (tracker w)\<lparr>progressInterval := None\<rparr>\<rparr>
                else w)
      in w1\<lparr>tracker := (tracker w1)\<lparr>startTime := None, estimatedTimeRemaining := ''''\<rparr>\<rparr>)"

text \<open>
  The reactive statements of the component, run when Svelte flushes a store change:
  the destructuring of \<open>$generationStore\<close>, then the block that starts or stops polling.
\<close>

definition reactive :: "int \<Rightarrow> World \<Rightarrow> World" where
  "reactive now w =
     (let w1 = w\<lparr>tracker := (tracker w)
                 \<lparr>tracker_isGenerating := isGenerating (current (generationStore w)),
                  tracker_progress := progress (current (generationStore w))\<rparr>\<rparr>
      in if tracker_isGenerating (tracker w1) \<and> \<not> truthy (progressInterval (tracker w1))
         then startProgressPolling now w1
         else if \<not> tracker_isGenerating (tracker w1) \<and> truthy (progressInterval (tracker w1))
         then stopProgressPolling w1
         else w1)"

text \<open>
  \<open>cancelGeneration()\<close>.  \<open>response\<close> is what becomes of
  \<open>invoke('cancel_generation')\<close>: \<open>None\<close> when the call never settles, else the value it
  resolved or was rejected with.  Both calls of \<open>setError\<close> come after the \<open>await\<close>.
\<close>

definition cancelTry :: "string + unit \<Rightarrow> World \<Rightarrow> World outcome" where
  "cancelTry response w =
     (case response of
        Inl err \<Rightarrow> Threw err w
      | Inr _ \<Rightarrow> Returned (dispatch (setError ''Generation cancelled by user'') w))"

definition cancelGeneration :: "(string + unit) option \<Rightarrow> World \<Rightarrow> World async" where
  "cancelGeneration response w =
     (case response of
        None \<Rightarrow> Suspended w
      | Some settled \<Rightarrow>
          Finished
            (case cancelTry settled w of
               Returned w' \<Rightarrow> Returned w'
             | Threw err w' \<Rightarrow>
                 Returned (dispatch (setError ''Failed to cancel generation'')
                             (console_error (''Failed to cancel generation: '' @ err) w'))))"

text \<open>
  A run of the polling callback: one response of \<open>get_generation_progress\<close> and one
  reading of the clock for each firing of the timer.
\<close>

fun poll_ticks :: "World \<Rightarrow> ((string + GenerationProgress) \<times> int) list \<Rightarrow> World" where
  "poll_ticks w [] = w"
| "poll_ticks w ((response, now) # ticks) =
     poll_ticks (state_of (pollTick response now w)) ticks"

fun polled_snapshots ::
  "((string + GenerationProgress) \<times> int) list \<Rightarrow> GenerationProgress list" where
  "polled_snapshots [] = []"
| "polled_snapshots ((Inl err, now) # ticks) = polled_snapshots ticks"
| "polled_snapshots ((Inr p, now) # ticks) = p # polled_snapshots ticks"

text \<open>A generation has been started and the tracker has begun to poll.\<close>

definition polling_world :: World where
  "polling_world = reactive 1000 (dispatch startGeneration initialWorld)"

section \<open>ImageGenerator.svelte\<close>

text \<open>\<open>String.prototype.trim\<close>, for the ASCII white space and line terminators.\<close>

definition is_space :: "char \<Rightarrow> bool" where
  "is_space c = (of_char c \<in> {9, 10, 11, 12, 13, 32 :: nat})"

definition trim :: "string \<Rightarrow> string" where
  "trim s = rev (dropWhile is_space (rev (dropWhile is_space s)))"

text \<open>The object literal passed to \<open>invoke('generate_image', { request: ... })\<close>.\<close>

definition generateRequest :: "string \<Rightarrow> int \<Rightarrow> int \<Rightarrow> GenerationParams" where
  "generateRequest p width height =
     \<lparr>prompt = p, img_width = width, img_height = height, num_imgs = 1,
      num_inference_steps = 20, guidance_scale = 15 / 2\<rparr>"

text \<open>
  \<open>handleGenerate()\<close>.  \<open>p\<close>, \<open>width\<close> and \<open>height\<close> are the component's local variables
  and \<open>backend\<close> is the command \<open>generate_image\<close>, which resolves with a result or
  rejects with a message.
\<close>

definition generateTry ::
  "(GenerationParams \<Rightarrow> string + GenerationResult) \<Rightarrow> string \<Rightarrow> int \<Rightarrow> int \<Rightarrow> World
     \<Rightarrow> World outcome" where
  "generateTry backend p width height w =
     (let w1 = dispatch startGeneration w
      in case backend (generateRequest p width height) of
           Inl err \<Rightarrow> Threw err w1
         | Inr result \<Rightarrow> Returned (dispatch (setResult result) w1))"

definition handleGenerate ::
  "(GenerationParams \<Rightarrow> string + GenerationResult) \<Rightarrow> string \<Rightarrow> int \<Rightarrow> int \<Rightarrow> World
     \<Rightarrow> World outcome" where
  "handleGenerate backend p width height w =
     (if trim p = [] then Returned (dispatch (setError ''Please enter a prompt'') w)
      else
        (case generateTry backend p width height w of
           Returned w' \<Rightarrow> Returned w'
         | Threw err w' \<Rightarrow> Returned (dispatch (setError err) w')))"

text \<open>
  What \<open>handleGenerate\<close> does once the awaited \<open>generate_image\<close> has settled, however
  late: the rest of the \<open>try\<close> on a result, the \<open>catch\<close> on a rejection.
\<close>

definition generateSettled :: "string + GenerationResult \<Rightarrow> World \<Rightarrow> World" where
  "generateSettled reply w =
     (case reply of
        Inl err \<Rightarrow> dispatch (setError err) w
      | Inr result \<Rightarrow> dispatch (setResult result) w)"

text \<open>
  The user has moved the slider of \<open>AdvancedControls.svelte\<close> to 35 inference steps
  (\<open>updateInferenceSteps(35)\<close>).
\<close>

definition slider_world :: World where
  "slider_world =
     dispatch
       (updateParams
          \<lparr>new_prompt = None, new_img_width = None, new_img_height = None,
           new_num_imgs = None, new_num_inference_steps = Some 35,
           new_guidance_scale = None\<rparr>)
       initialWorld"

section \<open>DimensionInput.svelte\<close>

text \<open>
  \<open>parseInt(value)\<close> without a radix, as ECMAScript defines it: leading white space
  is skipped, a sign is read, a prefix \<open>0x\<close> or \<open>0X\<close> selects radix 16, and the longest
  run of digits of the radix is the number; no digit at all gives \<open>NaN\<close> (\<open>None\<close>).
  What follows the digits is ignored.  The result is exact here, as it is in the source
  below \<open>2^53\<close>.
\<close>

definition digit_value :: "char \<Rightarrow> nat option" where
  "digit_value c =
     (let n = (of_char c :: nat) in
      if 48 \<le> n \<and> n \<le> 57 then Some (n - 48)
      else if 97 \<le> n \<and> n \<le> 122 then Some (n - 87)
      else if 65 \<le> n \<and> n \<le> 90 then Some (n - 55)
      else None)"

definition radix_digit :: "nat \<Rightarrow> char \<Rightarrow> bool" where
  "radix_digit R c = (case digit_value c of None \<Rightarrow> False | Some d \<Rightarrow> d < R)"

definition digits_value :: "nat \<Rightarrow> string \<Rightarrow> nat" where
  "digits_value R Z = foldl (\<lambda>acc c. acc * R + the (digit_value c)) 0 Z"

definition strip_sign :: "string \<Rightarrow> int \<times> string" where
  "strip_sign S =
     (case S of
        [] \<Rightarrow> (1, [])
      | c # rest \<Rightarrow>
          if c = CHR ''-'' then (- 1, rest)
          else if c = CHR ''+'' then (1, rest)
          else (1, S))"

definition strip_prefix :: "string \<Rightarrow> nat \<times> string" where
  "strip_prefix S =
     (case S of
        c # d # rest \<Rightarrow>
          if c = CHR ''0'' \<and> (d = CHR ''x'' \<or> d = CHR ''X'') then (16, rest) else (10, S)
      | _ \<Rightarrow> (10, S))"

definition parseInt :: "string \<Rightarrow> int option" where
  "parseInt inputString =
     (let (sign, S) = strip_sign (dropWhile is_space inputString);
          (R, S') = strip_prefix S;
          Z = takeWhile (radix_digit R) S'
      in if Z = [] then None else Some (sign * int (digits_value R Z)))"

record Preset =
  name :: string
  ratio :: rat
  width :: int
  height :: int

definition aspectRatios :: "Preset list" where
  "aspectRatios =
     [\<lparr>name = ''Square'', ratio = 1, width = 512, height = 512\<rparr>,
      \<lparr>name = ''Portrait'', ratio = 3 / 4, width = 512, height = 682\<rparr>,
      \<lparr>name = ''Landscape'', ratio = 133 / 100, width = 682, height = 512\<rparr>,
      \<lparr>name = ''Wide'', ratio = 177 / 100, width = 768, height = 432\<rparr>]"

definition updateDimensions :: "int \<Rightarrow> int \<Rightarrow> GenerationState \<Rightarrow> GenerationState" where
  "updateDimensions newWidth newHeight store =
     updateDimension Height newHeight (updateDimension Width newWidth store)"

definition applyAspectRatio :: "Preset \<Rightarrow> GenerationState \<Rightarrow> GenerationState" where
  "applyAspectRatio preset store = updateDimensions (width preset) (height preset) store"

definition validateDimension :: "string \<Rightarrow> bool" where
  "validateDimension v =
     (case parseInt v of None \<Rightarrow> False | Some num \<Rightarrow> num \<ge> 256 \<and> num \<le> 1024)"

text \<open>
  \<open>handleWidthChange(event)\<close> and \<open>handleHeightChange(event)\<close>: \<open>v\<close> is
  \<open>event.target.value\<close>, and \<open>h\<close> (\<open>w\<close>) is the component's local copy of the other
  dimension, which the handler writes back to the store with the new value.  When
  \<open>parseInt\<close> gives \<open>NaN\<close> the validation fails and nothing is written.
\<close>

definition handleWidthChange :: "string \<Rightarrow> int \<Rightarrow> GenerationState \<Rightarrow> GenerationState" where
  "handleWidthChange v h store =
     (case parseInt v of
        None \<Rightarrow> store
      | Some newWidth \<Rightarrow>
          if validateDimension v then updateDimensions newWidth h store else store)"

definition handleHeightChange :: "string \<Rightarrow> int \<Rightarrow> GenerationState \<Rightarrow> GenerationState" where
  "handleHeightChange v w store =
     (case parseInt v of
        None \<Rightarrow> store
      | Some newHeight \<Rightarrow>
          if validateDimension v then updateDimensions w newHeight store else store)"

definition dimension_ok :: "int \<Rightarrow> bool" where
  "dimension_ok n = (256 \<le> n \<and> n \<le> 1024)"

definition dimensions_in_range :: "GenerationState \<Rightarrow> bool" where
  "dimensions_in_range store =
     (dimension_ok (img_width (params store)) \<and> dimension_ok (img_height (params store)))"

text \<open>
  The dimension panel with its local variables \<open>width\<close> and \<open>height\<close>.  When the user
  enters the integer \<open>n\<close> in a field, \<open>bind:value\<close> stores \<open>n\<close> in the variable of the
  field, and the change handler then runs on the text of the field, the decimal of
  \<open>n\<close>.  When the handler writes to the store, the reactive statements
  \<open>$: width = params.img_width\<close> and \<open>$: height = params.img_height\<close> copy the
  dimensions of the store into the variables at the next flush; when it rejects the
  value, the store does not change and the variables keep what was entered.
\<close>

record DimensionInput =
  local_width :: int
  local_height :: int

definition sync :: "GenerationState \<Rightarrow> DimensionInput" where
  "sync store =
     \<lparr>local_width = img_width (params store), local_height = img_height (params store)\<rparr>"

definition initialPanel :: DimensionInput where
  "initialPanel = sync initialState"

datatype dimension_event =
  EnterWidth int
  | EnterHeight int
  | ClickPreset nat

fun panel_step ::
  "DimensionInput \<times> GenerationState \<Rightarrow> dimension_event
     \<Rightarrow> DimensionInput \<times> GenerationState" where
  "panel_step (panel, store) (EnterWidth n) =
     (let panel1 = panel\<lparr>local_width := n\<rparr>;
          store1 = handleWidthChange (show_int n) (local_height panel1) store
      in if validateDimension (show_int n) then (sync store1, store1) else (panel1, store1))"
| "panel_step (panel, store) (EnterHeight n) =
     (let panel1 = panel\<lparr>local_height := n\<rparr>;
          store1 = handleHeightChange (show_int n) (local_width panel1) store
      in if validateDimension (show_int n) then (sync store1, store1) else (panel1, store1))"
| "panel_step (panel, store) (ClickPreset i) =
     (if i < length aspectRatios
      then (let store1 = applyAspectRatio (aspectRatios ! i) store in (sync store1, store1))
      else (panel, store))"

section \<open>The actions of the store as a transition system\<close>

datatype action =
  UpdateParams PartialParams
  | UpdateDimension dimension int
  | StartGeneration
  | UpdateProgress GenerationProgress
  | SetResult GenerationResult
  | SetError string
  | Reset
  | LoadSettings "string + AppSettings"

fun apply_action :: "GenerationState \<Rightarrow> action \<Rightarrow> GenerationState" where
  "apply_action s (UpdateParams newParams) = updateParams newParams s"
| "apply_action s (UpdateDimension d v) = updateDimension d v s"
| "apply_action s StartGeneration = startGeneration s"
| "apply_action s (UpdateProgress p) = updateProgress p s"
| "apply_action s (SetResult r) = setResult r s"
| "apply_action s (SetError e) = setError e s"
| "apply_action s Reset = reset s"
| "apply_action s (LoadSettings response) = loadSettings response s"

definition run :: "action list \<Rightarrow> GenerationState \<Rightarrow> GenerationState" where
  "run as s = foldl apply_action s as"

definition progress_ok :: "GenerationProgress \<Rightarrow> bool" where
  "progress_ok p = (current_step p \<le> total_steps p)"

text \<open>
  An action that respects the step bound: a progress payload within its own total, and
  no negative step count written to the parameters.
\<close>

fun steps_ok :: "int option \<Rightarrow> bool" where
  "steps_ok None = True"
| "steps_ok (Some n) = (0 \<le> n)"

fun bounded_action :: "action \<Rightarrow> bool" where
  "bounded_action (UpdateProgress p) = progress_ok p"
| "bounded_action (UpdateParams newParams) = steps_ok (new_num_inference_steps newParams)"
| "bounded_action (LoadSettings (Inr settings)) = (0 \<le> default_inference_steps settings)"
| "bounded_action _ = True"

section \<open>The worker line protocol\<close>

text \<open>
  The backend that writes and reads the worker's lines is not among the sources; the
  frontend hands it the request object above and receives a \<open>GenerationResult\<close>.  The
  definitions of this section follow the protocol as the specification and the
  backend's README describe it.
\<close>

datatype json_value = JString string | JNumber rat

type_synonym json_object = "(string \<times> json_value) list"

abbreviation newline :: char where
  "newline \<equiv> CHR 0x0A"

abbreviation dquote :: char where
  "dquote \<equiv> CHR 0x22"

abbreviation backslash :: char where
  "backslash \<equiv> CHR 0x5C"

text \<open>
  Modelled from the spec: the JSON encoding of a payload (section 4.1, "a JSON-encoded
  payload object"), which the missing backend produces with its JSON library.  A string
  is quoted with the quote, the backslash and the control characters escaped; a number
  is printed in decimal, with at most 17 digits after the point.
\<close>

definition escape_char :: "char \<Rightarrow> string" where
  "escape_char c =
     (let n = (of_char c :: nat) in
      if c = dquote then [backslash, dquote]
      else if c = backslash then [backslash, backslash]
      else if n = 10 then [backslash, CHR ''n'']
      else if n = 13 then [backslash, CHR ''r'']
      else if n = 9 then [backslash, CHR ''t'']
      else if n < 32 then
        [backslash, CHR ''u'', CHR ''0'', CHR ''0'',
         ''0123456789abcdef'' ! (n div 16), ''0123456789abcdef'' ! (n mod 16)]
      else [c])"

definition render_string :: "string \<Rightarrow> string" where
  "render_string s = dquote # concat (map escape_char s) @ [dquote]"

fun frac_digits :: "nat \<Rightarrow> rat \<Rightarrow> string" where
  "frac_digits 0 r = []"
| "frac_digits (Suc k) r =
     (if r = 0 then []
      else (let d = nat \<lfloor>r * 10\<rfloor>
            in (''0123456789'' ! (d mod 10)) # frac_digits k (r * 10 - of_nat d)))"

definition show_number :: "rat \<Rightarrow> string" where
  "show_number q =
     (if q < 0 then ''-'' else []) @ show_nat (nat \<lfloor>\<bar>q\<bar>\<rfloor>)
      @ (if frac \<bar>q\<bar> = 0 then [] else ''.'' @ frac_digits 17 (frac \<bar>q\<bar>))"

fun render_value :: "json_value \<Rightarrow> string" where
  "render_value (JString s) = render_string s"
| "render_value (JNumber q) = show_number q"

definition render_member :: "string \<times> json_value \<Rightarrow> string" where
  "render_member m = render_string (fst m) @ '':'' @ render_value (snd m)"

fun join :: "string \<Rightarrow> string list \<Rightarrow> string" where
  "join sep [] = []"
| "join sep [x] = x"
| "join sep (x # y # ys) = x @ sep @ join sep (y # ys)"

definition render_object :: "json_object \<Rightarrow> string" where
  "render_object members = ''{'' @ join '','' (map render_member members) @ ''}''"

text \<open>
  Modelled from the spec: \<open>Encode\<close> of the Protocol Codec (section 4.1), missing from the
  sources: "a 4-character source marker, a space, a 4-character command code, a space, a
  JSON-encoded payload object, terminated by a newline".
\<close>

definition encode :: "string \<Rightarrow> string \<Rightarrow> json_object \<Rightarrow> string" where
  "encode marker code payload =
     marker @ '' '' @ code @ '' '' @ render_object payload @ [newline]"

text \<open>
  Modelled from the spec: the payload of the text-to-image command (section 6), with the
  field names the worker expects; they are the keys of the request object that
  \<open>handleGenerate\<close> builds.
\<close>

definition request_payload :: "GenerationParams \<Rightarrow> json_object" where
  "request_payload request =
     [(''prompt'', JString (prompt request)),
      (''img_width'', JNumber (of_int (img_width request))),
      (''img_height'', JNumber (of_int (img_height request))),
      (''num_imgs'', JNumber (of_int (num_imgs request))),
      (''num_inference_steps'', JNumber (of_int (num_inference_steps request))),
      (''guidance_scale'', JNumber (guidance_scale request))]"

definition encode_t2im :: "GenerationParams \<Rightarrow> string" where
  "encode_t2im request = encode ''b2py'' ''t2im'' (request_payload request)"

text \<open>
  Modelled from the spec: the result line of the worker (section 6, and "Usage" in the
  backend's README), whose payload carries the path of the new image.
\<close>

definition result_payload :: "string \<Rightarrow> json_object" where
  "result_payload path = [(''generated_img_path'', JString path)]"

definition encode_nwim :: "string \<Rightarrow> string" where
  "encode_nwim path = encode ''sdbk'' ''nwim'' (result_payload path)"

text \<open>
  Modelled from the spec: the first step of \<open>Decode\<close> (section 4.1), missing from the
  sources: a line is split into its 4-character marker, its 4-character code and the
  JSON text; a line of another shape is a decode error (\<open>None\<close>).  The JSON text is not
  parsed here.
\<close>

definition split_line :: "string \<Rightarrow> (string \<times> string \<times> string) option" where
  "split_line line =
     (if length line \<ge> 11 \<and> last line = newline \<and> newline \<notin> set (butlast line)
         \<and> line ! 4 = CHR '' '' \<and> line ! 9 = CHR '' ''
         \<and> CHR '' '' \<notin> set (take 4 line) \<and> CHR '' '' \<notin> set (take 4 (drop 5 line))
      then Some (take 4 line, take 4 (drop 5 line), butlast (drop 10 line))
      else None)"

definition store_inv :: "GenerationState \<Rightarrow> bool" where
  "store_inv s = (progress_ok (progress s) \<and> 0 \<le> num_inference_steps (params s))"

section \<open>History\<close>

text \<open>
  C10: after every \<open>setResult\<close> call the new result is the first element of the
  history, the history holds at most 50 results, \<open>isGenerating\<close> is false and the new
  result is the current result, whatever the history was before.
\<close>

theorem setResult_history:
  "hd (history (setResult r s)) = r
   \<and> history (setResult r s) = take 50 (r # history s)
   \<and> length (history (setResult r s)) \<le> 50
   \<and> isGenerating (setResult r s) = False
   \<and> currentResult (setResult r s) = Some r"
  by (simp add: setResult_def take_Cons')

section \<open>Starting a generation\<close>

lemma startGeneration_progress:
  "isGenerating (startGeneration s)
   \<and> error (startGeneration s) = None
   \<and> progress (startGeneration s)
       = \<lparr>current_step = 0, total_steps = num_inference_steps (params s),
          status = ''Initializing...'', is_complete = None, is_cancelled = None\<rparr>"
  by (simp add: startGeneration_def)

text \<open>
  C5: starting a generation from an idle store should give a snapshot at step 0 whose
  total is the step count of the originating request, with the status
  "Initializing...", generating and without error.  The code breaks this when the store
  holds another step count than 20: with 35 steps chosen, \<open>handleGenerate\<close> starts a
  snapshot of 35 steps and sends a request for 20, the constant of its object literal;
  a backend that answers with the step count it was asked for reports 20.
\<close>

theorem request_and_snapshot_disagree:
  "num_inference_steps (params (current (generationStore slider_world))) = 35
   \<and> \<not> isGenerating (current (generationStore slider_world))
   \<and> total_steps (progress (current (generationStore
        (state_of (handleGenerate (\<lambda>request. Inl (show_int (num_inference_steps request)))
                     ''a cat'' 512 512 slider_world))))) = 35
   \<and> error (current (generationStore
        (state_of (handleGenerate (\<lambda>request. Inl (show_int (num_inference_steps request)))
                     ''a cat'' 512 512 slider_world)))) = Some ''20''
   \<and> num_inference_steps (generateRequest ''a cat'' 512 512) = 20"
proof -
  have submitted: "trim ''a cat'' \<noteq> []"
    by code_simp
  have twenty: "show_int 20 = ''20''"
    by code_simp
  show ?thesis
    using submitted twenty
    by (simp add: handleGenerate_def generateTry_def generateRequest_def slider_world_def
        dispatch_def store_update_def startGeneration_def setError_def updateParams_def
        spread_def initialWorld_def initialState_def defaultParams_def)
qed

section \<open>Sequences of actions\<close>

lemma run_snoc: "run (as @ [a]) s = apply_action (run as s) a"
  by (simp add: run_def)

lemma run_Cons: "run (a # as) s = run as (apply_action s a)"
  by (simp add: run_def)

lemma progress_after_updates:
  "ps \<noteq> [] \<Longrightarrow> progress (run (map UpdateProgress ps) s) = last ps"
proof (induction ps rule: rev_induct)
  case Nil
  then show ?case by simp
next
  case (snoc p ps)
  show ?case
    by (simp add: run_snoc updateProgress_def)
qed

text \<open>
  C6: after a non-empty sequence of progress updates whose step counts never decrease
  and stay within the total of the session, the current step of the snapshot in the
  store is the step of the last update.
\<close>

theorem last_update_is_published:
  assumes "ps \<noteq> []"
    and "sorted (map current_step ps)"
    and "\<forall>p \<in> set ps. current_step p \<le> total_steps (progress s)"
  shows "current_step (progress (run (map UpdateProgress ps) s)) = current_step (last ps)"
  using assms(1) by (simp add: progress_after_updates)

theorem last_update_is_published_witness:
  "current_step
     (progress
        (run (map UpdateProgress
                [\<lparr>current_step = 1, total_steps = 20, status = ''Generating'',
                  is_complete = Some False, is_cancelled = Some False\<rparr>,
                 \<lparr>current_step = 2, total_steps = 20, status = ''Generating'',
                  is_complete = Some False, is_cancelled = Some False\<rparr>])
           (startGeneration initialState))) = 2"
  using last_update_is_published
    [of "[\<lparr>current_step = 1, total_steps = 20, status = ''Generating'',
           is_complete = Some False, is_cancelled = Some False\<rparr>,
          \<lparr>current_step = 2, total_steps = 20, status = ''Generating'',
           is_complete = Some False, is_cancelled = Some False\<rparr>]"
        "startGeneration initialState"]
  by (simp add: startGeneration_def initialState_def defaultParams_def)

section \<open>Cancelling\<close>

lemma handleGenerate_settles:
  "trim p \<noteq> [] \<Longrightarrow>
   handleGenerate backend p wd ht w
     = Returned (generateSettled (backend (generateRequest p wd ht)) (dispatch startGeneration w))"
  by (cases "backend (generateRequest p wd ht)")
    (simp_all add: handleGenerate_def generateTry_def generateSettled_def)

text \<open>
  C1, as the claim states it, fails: \<open>cancelGeneration\<close> awaits the backend command
  before either call of \<open>setError\<close>.  When the call to \<open>cancel_generation\<close> never
  settles, a generation in progress stays in progress and no message is recorded.
\<close>

theorem pending_cancel_changes_nothing:
  "isGenerating (current (generationStore
      (async_state (cancelGeneration None (dispatch startGeneration initialWorld)))))
   \<and> error (current (generationStore
      (async_state (cancelGeneration None (dispatch startGeneration initialWorld))))) = None"
  by (simp add: cancelGeneration_def dispatch_def store_update_def startGeneration_def)

text \<open>
  C1, amended: for a generation in progress, as long as the call to
  \<open>cancel_generation\<close> has not settled the handler is suspended and the store is as it
  was; once the call has settled, resolved or rejected, \<open>cancelGeneration\<close> returns with
  the store no longer generating and a message about the cancellation recorded as its
  error, no response of the worker being needed.  A reply of \<open>generate_image\<close> that
  arrives afterwards leaves the store not generating; a late result keeps the message
  and a late rejection replaces it.
\<close>

theorem settled_cancel_is_terminal:
  assumes "isGenerating (current (generationStore w))"
  shows "cancelGeneration None w = Suspended w
    \<and> (\<exists>w'. cancelGeneration (Some response) w = Finished (Returned w')
          \<and> \<not> isGenerating (current (generationStore w'))
          \<and> error (current (generationStore w'))
              = Some (case response of
                        Inl err \<Rightarrow> ''Failed to cancel generation''
                      | Inr ok \<Rightarrow> ''Generation cancelled by user'')
          \<and> \<not> isGenerating (current (generationStore (generateSettled reply w')))
          \<and> error (current (generationStore (generateSettled (Inr result) w')))
              = error (current (generationStore w'))
          \<and> error (current (generationStore (generateSettled (Inl late) w'))) = Some late)"
proof -
  have late: "\<not> isGenerating (current (generationStore (generateSettled reply v)))
      \<and> error (current (generationStore (generateSettled (Inr result) v)))
          = error (current (generationStore v))
      \<and> error (current (generationStore (generateSettled (Inl late) v))) = Some late" for v
    by (cases reply)
      (simp_all add: generateSettled_def dispatch_def store_update_def setError_def
         setResult_def)
  show ?thesis
  proof (cases response)
    case (Inl err)
    then show ?thesis
      using late
      by (simp add: cancelGeneration_def cancelTry_def dispatch_def store_update_def
          setError_def console_error_def)
  next
    case (Inr ok)
    then show ?thesis
      using late
      by (simp add: cancelGeneration_def cancelTry_def dispatch_def store_update_def
          setError_def)
  qed
qed

theorem settled_cancel_is_terminal_witness:
  "isGenerating (current (generationStore (dispatch startGeneration initialWorld)))
   \<and> \<not> isGenerating (current (generationStore
         (async_state (cancelGeneration (Some (Inl ''worker gone''))
                         (dispatch startGeneration initialWorld)))))
   \<and> error (current (generationStore
         (async_state (cancelGeneration (Some (Inl ''worker gone''))
                         (dispatch startGeneration initialWorld)))))
       = Some ''Failed to cancel generation''"
proof -
  have running: "isGenerating (current (generationStore (dispatch startGeneration initialWorld)))"
    by (simp add: dispatch_def store_update_def startGeneration_def)
  have "\<exists>w'. cancelGeneration (Some (Inl ''worker gone'')) (dispatch startGeneration initialWorld)
         = Finished (Returned w')
       \<and> \<not> isGenerating (current (generationStore w'))
       \<and> error (current (generationStore w')) = Some ''Failed to cancel generation''"
    using settled_cancel_is_terminal [OF running, where response = "Inl ''worker gone''"]
    by simp blast
  then obtain w' where
    "cancelGeneration (Some (Inl ''worker gone'')) (dispatch startGeneration initialWorld)
       = Finished (Returned w')"
    and "\<not> isGenerating (current (generationStore w'))"
    and "error (current (generationStore w')) = Some ''Failed to cancel generation''"
    by blast
  with running show ?thesis by simp
qed

section \<open>The step bound of the snapshot\<close>

lemma store_inv_initial: "store_inv initialState"
  by (simp add: store_inv_def progress_ok_def initialState_def defaultParams_def)

lemma store_inv_step:
  assumes "store_inv s" and "bounded_action a"
  shows "store_inv (apply_action s a)"
proof (cases a)
  case (UpdateParams newParams)
  with assms show ?thesis
    by (cases "new_num_inference_steps newParams")
      (simp_all add: store_inv_def updateParams_def spread_def)
next
  case (UpdateDimension d v)
  with assms show ?thesis
    by (cases d) (simp_all add: store_inv_def updateDimension_def)
next
  case StartGeneration
  with assms show ?thesis
    by (simp add: store_inv_def startGeneration_def progress_ok_def)
next
  case (UpdateProgress p)
  with assms show ?thesis
    by (simp add: store_inv_def updateProgress_def)
next
  case (SetResult r)
  with assms show ?thesis
    by (simp add: store_inv_def setResult_def)
next
  case (SetError e)
  with assms show ?thesis
    by (simp add: store_inv_def setError_def)
next
  case Reset
  with assms show ?thesis
    by (simp add: store_inv_def reset_def progress_ok_def defaultParams_def)
next
  case (LoadSettings response)
  with assms show ?thesis
    by (cases response) (simp_all add: store_inv_def loadSettings_def)
qed

lemma store_inv_run:
  "store_inv s \<Longrightarrow> list_all bounded_action as \<Longrightarrow> store_inv (run as s)"
proof (induction as arbitrary: s)
  case Nil
  then show ?case by (simp add: run_def)
next
  case (Cons a as)
  then show ?case
    by (simp add: run_Cons store_inv_step)
qed

text \<open>
  C2, as the claim states it, fails: \<open>updateProgress\<close> stores whatever payload it is
  given, so a payload reporting step 5 of 3 puts the store in a state whose current step
  exceeds its total.
\<close>

theorem updateProgress_breaks_step_bound:
  "\<not> progress_ok
       (progress
          (run [StartGeneration,
                UpdateProgress \<lparr>current_step = 5, total_steps = 3, status = ''Generating'',
                                is_complete = Some False, is_cancelled = Some False\<rparr>]
             initialState))"
  by (simp add: run_def updateProgress_def progress_ok_def)

text \<open>
  C2, amended: \<open>updateProgress\<close> makes the payload the snapshot, unchecked; the current
  step is at most the total in every state reached from the initial store by actions
  whose progress payloads are themselves within their total and which write no negative
  step count to the parameters.
\<close>

theorem bounded_actions_keep_step_bound:
  assumes "list_all bounded_action as"
  shows "progress (updateProgress p s) = p
    \<and> progress_ok (progress (run as initialState))"
  using store_inv_run [OF store_inv_initial assms]
  by (simp add: store_inv_def updateProgress_def)

theorem bounded_actions_keep_step_bound_witness:
  "progress_ok
     (progress
        (run [StartGeneration,
              UpdateProgress \<lparr>current_step = 3, total_steps = 20, status = ''Generating'',
                              is_complete = Some False, is_cancelled = Some False\<rparr>]
           initialState))"
  using bounded_actions_keep_step_bound
    [of "[StartGeneration,
          UpdateProgress \<lparr>current_step = 3, total_steps = 20, status = ''Generating'',
                          is_complete = Some False, is_cancelled = Some False\<rparr>]"]
  by (simp add: progress_ok_def)

section \<open>Failures of the backend\<close>

text \<open>
  C9, as the claim states it, fails for the polling half: when the poll request is
  rejected during a generation, the callback only writes to the console; the store
  records no error and is still generating.
\<close>

theorem failed_poll_records_no_error:
  "\<not> escaped (pollTick (Inl ''backend unreachable'') 1500 (dispatch startGeneration initialWorld))
   \<and> error (current (generationStore
        (state_of (pollTick (Inl ''backend unreachable'') 1500
                     (dispatch startGeneration initialWorld))))) = None
   \<and> isGenerating (current (generationStore
        (state_of (pollTick (Inl ''backend unreachable'') 1500
                     (dispatch startGeneration initialWorld)))))"
  by (simp add: pollTick_def pollTry_def console_error_def dispatch_def store_update_def
      startGeneration_def initialWorld_def)

text \<open>
  C9, amended: when \<open>generate_image\<close> rejects a submitted prompt, \<open>handleGenerate\<close>
  records the rejection value as the error of the store and ends the generation; a
  rejected poll request is written to the console only and leaves the store as it was;
  neither \<open>handleGenerate\<close> nor the polling callback lets an exception escape, whatever
  the backend answers.
\<close>

theorem failures_are_caught:
  assumes "trim p \<noteq> []" and "backend (generateRequest p wd ht) = Inl err"
  shows "\<not> escaped (handleGenerate backend p wd ht w)
    \<and> error (current (generationStore (state_of (handleGenerate backend p wd ht w)))) = Some err
    \<and> \<not> isGenerating (current (generationStore (state_of (handleGenerate backend p wd ht w))))
    \<and> \<not> escaped (handleGenerate backend' p' wd' ht' w)
    \<and> \<not> escaped (pollTick response now w)
    \<and> pollTick (Inl err) now w = Returned (console_error (''Failed to get progress: '' @ err) w)
    \<and> generationStore (state_of (pollTick (Inl err) now w)) = generationStore w"
proof -
  have gen: "handleGenerate backend p wd ht w
      = Returned (dispatch (setError err) (dispatch startGeneration w))"
    using assms by (simp add: handleGenerate_def generateTry_def)
  have no_escape: "\<not> escaped (handleGenerate backend' p' wd' ht' w)"
    by (cases "backend' (generateRequest p' wd' ht')")
      (simp_all add: handleGenerate_def generateTry_def)
  have poll: "\<not> escaped (pollTick response now w)"
    by (cases response) (simp_all add: pollTick_def pollTry_def Let_def)
  have failed: "pollTick (Inl err) now w
      = Returned (console_error (''Failed to get progress: '' @ err) w)"
    by (simp add: pollTick_def pollTry_def)
  show ?thesis
    by (simp add: gen no_escape poll failed dispatch_def store_update_def setError_def
        console_error_def)
qed

theorem failures_are_caught_witness:
  "error (current (generationStore
      (state_of (handleGenerate (\<lambda>request. Inl ''model not found'') ''a cat'' 512 512
                   initialWorld)))) = Some ''model not found''"
proof -
  have submitted: "trim ''a cat'' \<noteq> []"
    by code_simp
  have rejected:
    "(\<lambda>request. Inl ''model not found'' :: string + GenerationResult)
       (generateRequest ''a cat'' 512 512) = Inl ''model not found''"
    by simp
  from failures_are_caught [of "''a cat''" "\<lambda>request. Inl ''model not found''" 512 512
      "''model not found''" initialWorld, OF submitted rejected]
  show ?thesis by simp
qed

section \<open>Polling\<close>

lemma pollTick_notified:
  "map progress (notified (generationStore (state_of (pollTick response now w))))
     = map progress (notified (generationStore w)) @ polled_snapshots [(response, now)]"
  by (cases response)
    (simp_all add: pollTick_def pollTry_def Let_def dispatch_def store_update_def
       updateProgress_def console_error_def)

lemma poll_ticks_notified:
  "map progress (notified (generationStore (poll_ticks w ticks)))
     = map progress (notified (generationStore w)) @ polled_snapshots ticks"
proof (induction w ticks rule: poll_ticks.induct)
  case (1 w)
  show ?case by simp
next
  case (2 w response now ticks)
  show ?case
    using "2.IH" pollTick_notified [of response now w]
    by (cases response) simp_all
qed

lemma reactive_starts:
  assumes "isGenerating (current (generationStore w))"
    and "\<not> truthy (progressInterval (tracker w))"
  shows "intervals (reactive now w) = (next_handle w, 500) # intervals w"
    and "progressInterval (tracker (reactive now w)) = Some (next_handle w)"
  using assms
  by (simp_all add: reactive_def startProgressPolling_def setInterval_def pollIntervalMs_def)

lemma reactive_stops:
  assumes "\<not> isGenerating (current (generationStore w))"
    and "progressInterval (tracker w) = Some h" and "h \<noteq> 0"
  shows "h \<notin> fst ` set (intervals (reactive now w))"
    and "progressInterval (tracker (reactive now w)) = None"
  using assms
  by (auto simp add: reactive_def stopProgressPolling_def clearInterval_def truthy_def)

text \<open>
  C3, as the claim states it, fails: the callback hands every polled snapshot to
  \<open>updateProgress\<close> without comparing it with the one in the store.  When two polls in
  a row return the same snapshot, the second leaves the store's snapshot as the first
  made it and is published to the subscribers all the same.
\<close>

theorem unchanged_snapshot_is_published_again:
  "progress (current (generationStore
      (poll_ticks polling_world
         [(Inr \<lparr>current_step = 1, total_steps = 20, status = ''Generating'',
                 is_complete = Some False, is_cancelled = Some False\<rparr>, 1500)])))
     = \<lparr>current_step = 1, total_steps = 20, status = ''Generating'',
        is_complete = Some False, is_cancelled = Some False\<rparr>
   \<and> map progress (notified (generationStore
        (poll_ticks polling_world
           [(Inr \<lparr>current_step = 1, total_steps = 20, status = ''Generating'',
                   is_complete = Some False, is_cancelled = Some False\<rparr>, 1500),
            (Inr \<lparr>current_step = 1, total_steps = 20, status = ''Generating'',
                   is_complete = Some False, is_cancelled = Some False\<rparr>, 2000)])))
     = [\<lparr>current_step = 0, total_steps = 20, status = ''Initializing...'',
         is_complete = None, is_cancelled = None\<rparr>,
        \<lparr>current_step = 1, total_steps = 20, status = ''Generating'',
         is_complete = Some False, is_cancelled = Some False\<rparr>,
        \<lparr>current_step = 1, total_steps = 20, status = ''Generating'',
         is_complete = Some False, is_cancelled = Some False\<rparr>]"
  by (simp add: polling_world_def reactive_def startProgressPolling_def setInterval_def
      truthy_def initialWorld_def initialTracker_def initialState_def defaultParams_def
      pollTick_def pollTry_def Let_def dispatch_def store_update_def
      updateProgress_def startGeneration_def)

text \<open>
  C3, amended: at the flush after a generation becomes active the tracker registers its
  callback with a delay of 500 ms, and at the flush after the generation ends it clears
  that timer; every poll that succeeds is published to the subscribers of the store,
  changed or not, in the order of the polls, and a poll that fails publishes nothing.
\<close>

theorem every_poll_is_published:
  "(isGenerating (current (generationStore w)) \<and> \<not> truthy (progressInterval (tracker w))
      \<longrightarrow> intervals (reactive now w) = (next_handle w, 500) # intervals w
        \<and> progressInterval (tracker (reactive now w)) = Some (next_handle w))
   \<and> (\<not> isGenerating (current (generationStore w)) \<and> progressInterval (tracker w) = Some h
        \<and> h \<noteq> 0
      \<longrightarrow> h \<notin> fst ` set (intervals (reactive now w))
        \<and> progressInterval (tracker (reactive now w)) = None)
   \<and> map progress (notified (generationStore (poll_ticks w ticks)))
       = map progress (notified (generationStore w)) @ polled_snapshots ticks"
  using reactive_starts [of w now] reactive_stops [of w h now] poll_ticks_notified [of w ticks]
  by blast

theorem every_poll_is_published_witness:
  "intervals (reactive 1000 (dispatch startGeneration initialWorld)) = [(1, 500)]
   \<and> progressInterval (tracker
        (reactive 4000 (dispatch (setError ''Generation cancelled by user'') polling_world)))
       = None
   \<and> map progress (notified (generationStore
        (poll_ticks (dispatch startGeneration initialWorld)
           [(Inr \<lparr>current_step = 1, total_steps = 20, status = ''Generating'',
                   is_complete = Some False, is_cancelled = Some False\<rparr>, 1500),
            (Inl ''busy'', 2000),
            (Inr \<lparr>current_step = 1, total_steps = 20, status = ''Generating'',
                   is_complete = Some False, is_cancelled = Some False\<rparr>, 2500)])))
       = [\<lparr>current_step = 0, total_steps = 20, status = ''Initializing...'',
           is_complete = None, is_cancelled = None\<rparr>,
          \<lparr>current_step = 1, total_steps = 20, status = ''Generating'',
           is_complete = Some False, is_cancelled = Some False\<rparr>,
          \<lparr>current_step = 1, total_steps = 20, status = ''Generating'',
           is_complete = Some False, is_cancelled = Some False\<rparr>]"
proof -
  have started:
    "isGenerating (current (generationStore (dispatch startGeneration initialWorld)))
     \<and> \<not> truthy (progressInterval (tracker (dispatch startGeneration initialWorld)))"
    by (simp add: dispatch_def store_update_def startGeneration_def initialWorld_def
        initialTracker_def truthy_def)
  have ended:
    "\<not> isGenerating (current (generationStore
         (dispatch (setError ''Generation cancelled by user'') polling_world)))
     \<and> progressInterval (tracker
         (dispatch (setError ''Generation cancelled by user'') polling_world)) = Some 1
     \<and> (1::nat) \<noteq> 0"
    by (simp add: polling_world_def reactive_def startProgressPolling_def setInterval_def
        dispatch_def store_update_def startGeneration_def setError_def initialWorld_def
        initialTracker_def truthy_def)
  have first: "map progress (notified (generationStore (dispatch startGeneration initialWorld)))
      = [\<lparr>current_step = 0, total_steps = 20, status = ''Initializing...'',
          is_complete = None, is_cancelled = None\<rparr>]"
    by (simp add: dispatch_def store_update_def startGeneration_def initialWorld_def
        initialState_def defaultParams_def)
  have handle: "next_handle (dispatch startGeneration initialWorld) = 1"
    and none: "intervals (dispatch startGeneration initialWorld) = []"
    by (simp_all add: dispatch_def initialWorld_def)
  from every_poll_is_published
    [of "dispatch startGeneration initialWorld" 1000 0
        "[(Inr \<lparr>current_step = 1, total_steps = 20, status = ''Generating'',
                  is_complete = Some False, is_cancelled = Some False\<rparr>, 1500),
          (Inl ''busy'', 2000),
          (Inr \<lparr>current_step = 1, total_steps = 20, status = ''Generating'',
                  is_complete = Some False, is_cancelled = Some False\<rparr>, 2500)]"]
    every_poll_is_published
    [of "dispatch (setError ''Generation cancelled by user'') polling_world" 4000 1 "[]"]
    started ended first handle none
  show ?thesis by simp
qed

section \<open>The time estimate\<close>

lemma updateTimeEstimate_on_copy:
  "(current_step (tracker_progress tr) = 0
      \<longrightarrow> estimatedTimeRemaining (updateTimeEstimate now tr) = '''')
   \<and> (startTime tr = Some st \<and> st \<noteq> 0 \<and> current_step (tracker_progress tr) = c \<and> c > 0
        \<and> total_steps (tracker_progress tr) = t
      \<longrightarrow> estimatedTimeRemaining (updateTimeEstimate now tr)
            = formatTime (js_mul (js_div (rat_of_int (now - st)) (rat_of_int c))
                            (rat_of_int (t - c))))"
  by (simp add: updateTimeEstimate_def truthy_def Let_def)

lemma pollTick_estimate:
  "tracker (state_of (pollTick (Inr p) now w)) = updateTimeEstimate now (tracker w)"
  by (simp add: pollTick_def pollTry_def Let_def dispatch_def)

lemma polling_world_tracker:
  "tracker polling_world
     = \<lparr>tracker_isGenerating = True,
        tracker_progress = \<lparr>current_step = 0, total_steps = 20, status = ''Initializing...'',
                            is_complete = None, is_cancelled = None\<rparr>,
        progressInterval = Some 1, startTime = Some 1000, estimatedTimeRemaining = ''''\<rparr>"
  by (simp add: polling_world_def reactive_def startProgressPolling_def setInterval_def
      truthy_def initialWorld_def initialTracker_def initialState_def defaultParams_def
      dispatch_def store_update_def startGeneration_def)

text \<open>
  The doubles show: \<open>5000 / 7 * 21\<close> is a little more than 15000, so that its estimate
  is printed as 16 seconds.
\<close>

lemma rounded_estimate: "formatTime (js_mul (js_div 5000 7) 21) = ''16s''"
  by code_simp

lemma claimed_estimates:
  "formatTime (js_mul (js_div (rat_of_int (6000 - 1000)) 4) (rat_of_int (20 - 4))) = ''20s''"
  "formatTime (js_mul (js_div (rat_of_int (6500 - 1000)) 8) (rat_of_int (20 - 8))) = ''9s''"
  "formatTime (js_mul (js_div (rat_of_int (6500 - 1000)) 4) (rat_of_int (20 - 4))) = ''22s''"
  by code_simp+

text \<open>
  C4: at a poll tick with elapsed time \<open>e\<close>, \<open>c > 0\<close> completed steps and \<open>t\<close> total
  steps the estimate should be \<open>e / c * (t - c)\<close>.  The code breaks this: the callback
  runs \<open>updateTimeEstimate\<close> before the component's copy of the snapshot is refreshed.
  With polling begun at 1000, the poll at 6000 reports step 4 of 20 and leaves the
  estimate empty, where the formula gives 20 s; the poll at 6500 reports step 8 of 20 and
  shows 22 s, computed from step 4 of 20, where the formula gives 9 s.
\<close>

theorem estimate_lags_one_poll:
  "startTime (tracker polling_world) = Some 1000
   \<and> tracker_progress (tracker polling_world)
       = \<lparr>current_step = 0, total_steps = 20, status = ''Initializing...'',
          is_complete = None, is_cancelled = None\<rparr>
   \<and> estimatedTimeRemaining (tracker (state_of (pollTick
        (Inr \<lparr>current_step = 4, total_steps = 20, status = ''Generating'',
              is_complete = Some False, is_cancelled = Some False\<rparr>) 6000 polling_world)))
       = ''''
   \<and> formatTime (js_mul (js_div (rat_of_int (6000 - 1000)) 4) (rat_of_int (20 - 4))) = ''20s''
   \<and> estimatedTimeRemaining (tracker (state_of (pollTick
        (Inr \<lparr>current_step = 8, total_steps = 20, status = ''Generating'',
              is_complete = Some False, is_cancelled = Some False\<rparr>) 6500
        (reactive 6000 (state_of (pollTick
           (Inr \<lparr>current_step = 4, total_steps = 20, status = ''Generating'',
                 is_complete = Some False, is_cancelled = Some False\<rparr>) 6000
           polling_world))))))
       = ''22s''
   \<and> formatTime (js_mul (js_div (rat_of_int (6500 - 1000)) 8) (rat_of_int (20 - 8))) = ''9s''"
proof -
  let ?p4 = "\<lparr>current_step = 4, total_steps = 20, status = ''Generating'',
              is_complete = Some False, is_cancelled = Some False\<rparr>"
  let ?w1 = "state_of (pollTick (Inr ?p4) 6000 polling_world)"
  have first: "estimatedTimeRemaining (tracker ?w1) = ''''"
    by (simp add: pollTick_estimate polling_world_tracker updateTimeEstimate_def)
  have store1: "isGenerating (current (generationStore ?w1))
      \<and> progress (current (generationStore ?w1)) = ?p4"
    by (simp add: pollTick_def pollTry_def Let_def dispatch_def store_update_def
        updateProgress_def polling_world_def reactive_def startProgressPolling_def
        setInterval_def truthy_def initialWorld_def initialTracker_def startGeneration_def)
  have tracker1: "progressInterval (tracker ?w1) = Some 1 \<and> startTime (tracker ?w1) = Some 1000"
    by (simp add: pollTick_estimate polling_world_tracker updateTimeEstimate_def)
  have copy: "tracker_progress (tracker (reactive 6000 ?w1)) = ?p4
      \<and> startTime (tracker (reactive 6000 ?w1)) = Some 1000"
    using store1 tracker1 by (simp add: reactive_def truthy_def)
  have second: "estimatedTimeRemaining (tracker (state_of (pollTick
        (Inr \<lparr>current_step = 8, total_steps = 20, status = ''Generating'',
              is_complete = Some False, is_cancelled = Some False\<rparr>) 6500
        (reactive 6000 ?w1)))) = ''22s''"
    using updateTimeEstimate_on_copy [of "tracker (reactive 6000 ?w1)" 6500 1000 4 20]
      copy claimed_estimates(3)
    by (simp add: pollTick_estimate)
  show ?thesis
    using first second claimed_estimates(1,2)
    by (simp add: polling_world_tracker)
qed

section \<open>The dimensions of the image\<close>

lemma rejected_change_writes_nothing:
  "\<not> validateDimension v \<Longrightarrow> handleWidthChange v h s = s \<and> handleHeightChange v h s = s"
  by (cases "parseInt v") (simp_all add: handleWidthChange_def handleHeightChange_def)

lemma updateDimensions_params:
  "img_width (params (updateDimensions a b s)) = a"
  "img_height (params (updateDimensions a b s)) = b"
  by (simp_all add: updateDimensions_def updateDimension_def)

lemma accepted_change_writes_both:
  assumes "validateDimension v"
  shows "\<exists>n. parseInt v = Some n \<and> dimension_ok n
           \<and> img_width (params (handleWidthChange v h s)) = n
           \<and> img_height (params (handleWidthChange v h s)) = h
           \<and> img_height (params (handleHeightChange v h s)) = n
           \<and> img_width (params (handleHeightChange v h s)) = h"
  using assms
  by (cases "parseInt v")
    (simp_all add: validateDimension_def handleWidthChange_def handleHeightChange_def
       updateDimensions_params dimension_ok_def)

lemma entered_values:
  "validateDimension (show_int 2000) = False"
  "validateDimension (show_int 640) = True"
  "parseInt (show_int 640) = Some 640"
  by code_simp+

text \<open>
  C8: width and height should stay within [256, 1024], a change from the dimension
  inputs being applied only when the new value is an integer in that range.  The code
  breaks this: a rejected value stays in the component's variable, and the next
  accepted change of the other dimension writes it to the store.  Entering 2000 as the
  width changes nothing in the store; entering 640 as the height then writes the width
  2000 with it.
\<close>

theorem rejected_width_reaches_store:
  "dimensions_in_range (snd (foldl panel_step (initialPanel, initialState) [EnterWidth 2000]))
   \<and> local_width (fst (foldl panel_step (initialPanel, initialState) [EnterWidth 2000])) = 2000
   \<and> img_width (params (snd (foldl panel_step (initialPanel, initialState)
        [EnterWidth 2000, EnterHeight 640]))) = 2000
   \<and> img_height (params (snd (foldl panel_step (initialPanel, initialState)
        [EnterWidth 2000, EnterHeight 640]))) = 640
   \<and> \<not> dimensions_in_range (snd (foldl panel_step (initialPanel, initialState)
        [EnterWidth 2000, EnterHeight 640]))"
  by (simp add: entered_values Let_def initialPanel_def sync_def handleWidthChange_def
      handleHeightChange_def updateDimensions_params dimensions_in_range_def dimension_ok_def
      initialState_def defaultParams_def split: option.split)

section \<open>The lines of the protocol\<close>

lemma digit_char: "k < 10 \<Longrightarrow> ''0123456789'' ! k \<in> set ''0123456789''"
  by (rule nth_mem) simp

lemma hex_char: "k < 16 \<Longrightarrow> ''0123456789abcdef'' ! k \<in> set ''0123456789abcdef''"
  by (rule nth_mem) simp

lemma show_nat_digits: "set (show_nat n) \<subseteq> set ''0123456789''"
proof (induction n rule: show_nat.induct)
  case (1 n)
  show ?case
  proof (cases "n < 10")
    case True
    then show ?thesis
      using digit_char [of n] by (subst show_nat.simps) simp
  next
    case False
    have "n mod 10 < 10" by simp
    with False "1.IH" digit_char [of "n mod 10"] show ?thesis
      by (subst show_nat.simps) simp
  qed
qed

lemma frac_digits_digits: "set (frac_digits k r) \<subseteq> set ''0123456789''"
proof (induction k arbitrary: r)
  case 0
  show ?case by simp
next
  case (Suc k)
  have "nat \<lfloor>r * 10\<rfloor> mod 10 < 10" by simp
  with Suc digit_char [of "nat \<lfloor>r * 10\<rfloor> mod 10"] show ?case
    by (simp add: Let_def)
qed

lemma newline_not_digit: "newline \<notin> set ''0123456789''"
  by simp

lemma show_nat_one_line: "newline \<notin> set (show_nat n)"
  using show_nat_digits [of n] newline_not_digit by blast

lemma frac_digits_one_line: "newline \<notin> set (frac_digits k r)"
  using frac_digits_digits [of k r] newline_not_digit by blast

lemma show_number_one_line: "newline \<notin> set (show_number q)"
  by (simp add: show_number_def show_nat_one_line frac_digits_one_line)

lemma escape_char_one_line: "newline \<notin> set (escape_char c)"
proof (cases "(of_char c :: nat) < 32")
  case True
  have "newline \<notin> set ''0123456789abcdef''"
    by simp
  moreover from True have "(of_char c :: nat) div 16 < 16" by simp
  moreover have "(of_char c :: nat) mod 16 < 16" by simp
  ultimately have "newline \<noteq> ''0123456789abcdef'' ! (of_char c div 16)"
    and "newline \<noteq> ''0123456789abcdef'' ! (of_char c mod 16)"
    using hex_char by metis+
  with True show ?thesis
    by (simp add: escape_char_def Let_def)
next
  case False
  then have "c \<noteq> newline"
    by auto
  with False show ?thesis
    by (simp add: escape_char_def Let_def)
qed

lemma render_string_one_line: "newline \<notin> set (render_string s)"
  by (induction s) (simp_all add: render_string_def escape_char_one_line)

lemma render_member_one_line: "newline \<notin> set (render_member m)"
proof (cases "snd m")
  case (JString s)
  then show ?thesis
    by (simp add: render_member_def render_string_one_line)
next
  case (JNumber q)
  then show ?thesis
    by (simp add: render_member_def render_string_one_line show_number_one_line)
qed

lemma join_one_line:
  "newline \<notin> set sep \<Longrightarrow> \<forall>x \<in> set xs. newline \<notin> set x \<Longrightarrow> newline \<notin> set (join sep xs)"
  by (induction sep xs rule: join.induct) simp_all

lemma render_object_one_line: "newline \<notin> set (render_object payload)"
  using join_one_line [of "'',''" "map render_member payload"]
  by (simp add: render_object_def render_member_one_line)

lemma render_object_nonempty: "render_object payload \<noteq> []"
  by (simp add: render_object_def)

lemma split_line_encode:
  assumes "length m = 4" and "length c = 4"
    and "CHR '' '' \<notin> set m" and "CHR '' '' \<notin> set c"
    and "newline \<notin> set m" and "newline \<notin> set c"
  shows "split_line (encode m c payload) = Some (m, c, render_object payload)"
proof -
  let ?body = "render_object payload"
  let ?line = "m @ '' '' @ c @ '' '' @ ?body @ [newline]"
  have len: "length ?line \<ge> 11"
    using assms(1,2) render_object_nonempty [of payload]
    by (cases ?body) simp_all
  have butlast_line: "butlast ?line = m @ '' '' @ c @ '' '' @ ?body"
    by (simp add: butlast_append)
  have one_line: "newline \<notin> set (butlast ?line)"
    using assms(5,6) render_object_one_line [of payload]
    by (simp add: butlast_append)
  have sp1: "?line ! 4 = CHR '' ''"
    using assms(1) by (simp add: nth_append)
  have sp2: "?line ! 9 = CHR '' ''"
    using assms(1,2) by (simp add: nth_append)
  have marker: "take 4 ?line = m"
    using assms(1) by simp
  have code: "take 4 (drop 5 ?line) = c"
    using assms(1,2) by simp
  have rest: "butlast (drop 10 ?line) = ?body"
    using assms(1,2) by (simp add: butlast_append)
  have last_line: "last ?line = newline"
    by simp
  show ?thesis
    unfolding split_line_def encode_def
    using len one_line sp1 sp2 marker code rest last_line assms(3,4)
    by simp
qed


text \<open>
  C7: the text-to-image command is the marker \<open>b2py\<close>, the code \<open>t2im\<close> and a JSON
  object on one line, and the members of the object are named prompt, img_width,
  img_height, num_imgs, num_inference_steps and guidance_scale, the keys of the request
  that \<open>handleGenerate\<close> builds; the result line is the marker \<open>sdbk\<close>, the code \<open>nwim\<close>
  and a JSON object on one line that carries the path of the image under
  generated_img_path.  Splitting either line gives back its marker, code and JSON text.
\<close>

theorem line_protocol_form:
  "encode_t2im request = ''b2py t2im '' @ render_object (request_payload request) @ [newline]
   \<and> newline \<notin> set (butlast (encode_t2im request))
   \<and> map fst (request_payload request)
       = [''prompt'', ''img_width'', ''img_height'', ''num_imgs'', ''num_inference_steps'',
          ''guidance_scale'']
   \<and> map fst (request_payload (generateRequest p wd ht)) = map fst (request_payload request)
   \<and> split_line (encode_t2im request)
       = Some (''b2py'', ''t2im'', render_object (request_payload request))
   \<and> encode_nwim path = ''sdbk nwim '' @ render_object (result_payload path) @ [newline]
   \<and> newline \<notin> set (butlast (encode_nwim path))
   \<and> map_of (result_payload path) ''generated_img_path'' = Some (JString path)
   \<and> split_line (encode_nwim path)
       = Some (''sdbk'', ''nwim'', render_object (result_payload path))"
proof -
  have out: "split_line (encode_t2im request)
      = Some (''b2py'', ''t2im'', render_object (request_payload request))"
    unfolding encode_t2im_def by (rule split_line_encode) simp_all
  have inb: "split_line (encode_nwim path)
      = Some (''sdbk'', ''nwim'', render_object (result_payload path))"
    unfolding encode_nwim_def by (rule split_line_encode) simp_all
  have out_line: "newline \<notin> set (butlast (encode_t2im request))"
    using render_object_one_line [of "request_payload request"]
    by (simp add: encode_t2im_def encode_def butlast_append)
  have in_line: "newline \<notin> set (butlast (encode_nwim path))"
    using render_object_one_line [of "result_payload path"]
    by (simp add: encode_nwim_def encode_def butlast_append)
  have names: "map fst (request_payload r)
       = [''prompt'', ''img_width'', ''img_height'', ''num_imgs'', ''num_inference_steps'',
          ''guidance_scale'']" for r
    by (simp add: request_payload_def)
  have path: "map_of (result_payload path) ''generated_img_path'' = Some (JString path)"
    by (simp add: result_payload_def)
  show ?thesis
    using out inb out_line in_line path
    by (simp add: names encode_t2im_def encode_nwim_def encode_def)
qed

lemma encode_t2im_example:
  "encode_t2im (generateRequest ''a cat'' 512 512)
     = ''b2py t2im {'' @ [dquote] @ ''prompt'' @ [dquote] @ '':'' @ [dquote] @ ''a cat''
        @ [dquote] @ '','' @ [dquote] @ ''img_width'' @ [dquote] @ '':512,'' @ [dquote]
        @ ''img_height'' @ [dquote] @ '':512,'' @ [dquote] @ ''num_imgs'' @ [dquote]
        @ '':1,'' @ [dquote] @ ''num_inference_steps'' @ [dquote] @ '':20,'' @ [dquote]
        @ ''guidance_scale'' @ [dquote] @ '':7.5}'' @ [newline]"
  by code_simp

end
